theory Spec2Isabelle
  imports Complex_Main "HOL-Library.AList"
begin

section \<open>JavaScript values\<close>

text \<open>
  Request bodies, settings and response bodies are JavaScript values. Numbers are the
  finite ones, given by their rational value; an object is the list of its own
  properties, each key once, read with \<open>map_of\<close>. The values are data: none is a
  function, so no property of an object can be called, and an object has the prototype
  of object literals.
\<close>

datatype jsval =
    JUndefined
  | JNull
  | JBool bool
  | JNum rat
  | JStr string
  | JArr "jsval list"
  | JObj "(string \<times> jsval) list"

type_synonym object = "(string \<times> jsval) list"

text \<open>\<open>obj[k]\<close>: a property that is not there reads as \<open>undefined\<close>.\<close>

definition get_prop :: "object \<Rightarrow> string \<Rightarrow> jsval" where
  "get_prop obj k = (case map_of obj k of None \<Rightarrow> JUndefined | Some v \<Rightarrow> v)"

text \<open>
  \<open>Number.prototype.toString\<close> of the runtime is a parameter \<open>n2s\<close> of everything that
  converts a number to text. \<open>decimal\<close> stands for it in the examples, none of which
  converts a number: it writes the digits of an integer, as the runtime does for an
  integer below \<open>10 ^ 21\<close> in absolute value.
\<close>

fun decimal_nat :: "nat \<Rightarrow> string" where
  "decimal_nat n =
     (if n < 10 then [''0123456789'' ! n]
      else decimal_nat (n div 10) @ [''0123456789'' ! (n mod 10)])"

declare decimal_nat.simps [simp del]

definition decimal :: "rat \<Rightarrow> string" where
  "decimal r = (if r < 0 then ''-'' @ decimal_nat (nat (- \<lfloor>r\<rfloor>)) else decimal_nat (nat \<lfloor>r\<rfloor>))"

text \<open>
  What the startup code throws: \<open>Error('Environment file "<path>" not found!')\<close>,
  \<open>Error('Invalid environment configuration: <errors>')\<close> with the validation errors
  it prints, the \<open>TypeError\<close> of the runtime for a value that cannot be converted or
  constructed, and the error of reading a path that is a directory.
\<close>

datatype error =
    EnvFileNotFound string
  | InvalidEnvironmentConfiguration "string list"
  | TypeError
  | IsADirectory string

text \<open>The values that count as true in a condition.\<close>

definition truthy :: "jsval \<Rightarrow> bool" where
  "truthy v =
     (case v of
        JUndefined \<Rightarrow> False
      | JNull \<Rightarrow> False
      | JBool b \<Rightarrow> b
      | JNum r \<Rightarrow> r \<noteq> 0
      | JStr s \<Rightarrow> s \<noteq> []
      | _ \<Rightarrow> True)"

text \<open>
  The conversion \<open>String(value)\<close>. An array is joined with commas, \<open>null\<close> and
  \<open>undefined\<close> elements as the empty text. An object is converted by the \<open>toString\<close>
  it inherits, to \<open>[object Object]\<close>; when it has a property \<open>toString\<close> of its own,
  that property cannot be called, the inherited \<open>valueOf\<close> (or an own one, which
  cannot be called either) yields no primitive, and the conversion throws a
  \<open>TypeError\<close>.
\<close>

fun js_String :: "(rat \<Rightarrow> string) \<Rightarrow> jsval \<Rightarrow> error + string"
  and js_join :: "(rat \<Rightarrow> string) \<Rightarrow> jsval list \<Rightarrow> error + string" where
  "js_String n2s JUndefined = Inr ''undefined''"
| "js_String n2s JNull = Inr ''null''"
| "js_String n2s (JBool b) = Inr (if b then ''true'' else ''false'')"
| "js_String n2s (JNum r) = Inr (n2s r)"
| "js_String n2s (JStr s) = Inr s"
| "js_String n2s (JArr xs) = js_join n2s xs"
| "js_String n2s (JObj kvs) =
     (if map_of kvs ''toString'' \<noteq> None then Inl TypeError else Inr ''[object Object]'')"
| "js_join n2s [] = Inr []"
| "js_join n2s (x # xs) =
     (case (if x = JNull \<or> x = JUndefined then Inr [] else js_String n2s x) of
        Inl e \<Rightarrow> Inl e
      | Inr s \<Rightarrow>
          (if xs = [] then Inr s
           else case js_join n2s xs of Inl e \<Rightarrow> Inl e | Inr t \<Rightarrow> Inr (s @ '','' @ t)))"

section \<open>Declarative validation (class-validator, class-transformer)\<close>

text \<open>
  The decorators the sources put on the properties of their classes, with the checks
  class-validator runs for them.
\<close>

datatype decorator = IsString | IsNotEmpty | IsNumber | IsOptional | MinOf rat

fun satisfies :: "decorator \<Rightarrow> jsval \<Rightarrow> bool" where
  "satisfies IsString v = (case v of JStr s \<Rightarrow> True | _ \<Rightarrow> False)"
| "satisfies IsNotEmpty v = (v \<noteq> JStr [] \<and> v \<noteq> JNull \<and> v \<noteq> JUndefined)"
| "satisfies IsNumber v = (case v of JNum r \<Rightarrow> True | _ \<Rightarrow> False)"
| "satisfies IsOptional v = True"
| "satisfies (MinOf m) v = (case v of JNum r \<Rightarrow> m \<le> r | _ \<Rightarrow> False)"

text \<open>
  A class is the list of its decorated properties. \<open>@IsOptional()\<close> skips every check
  of its property when the value is \<open>undefined\<close> or \<open>null\<close>.
\<close>

type_synonym class_schema = "(string \<times> decorator list) list"

definition property_ok :: "decorator list \<Rightarrow> jsval \<Rightarrow> bool" where
  "property_ok decs v =
     (if IsOptional \<in> set decs \<and> (v = JUndefined \<or> v = JNull) then True
      else list_all (\<lambda>d. satisfies d v) decs)"

text \<open>
  \<open>validateSync(instance, { skipMissingProperties: false })\<close>: one error for each
  decorated property whose value fails a check, in the order of the class; an error is
  given by the name of its property.
\<close>

definition validateSync :: "class_schema \<Rightarrow> object \<Rightarrow> string list" where
  "validateSync cls inst = map fst (filter (\<lambda>(p, decs). \<not> property_ok decs (get_prop inst p)) cls)"

text \<open>
  \<open>plainToInstance(cls, plain, { enableImplicitConversion: true })\<close> goes through the
  keys of the plain object and sets each on a new instance of the class.

  A property whose declared type is \<open>string\<close> is converted with \<open>String(value)\<close>,
  unless it is \<open>null\<close> or \<open>undefined\<close>; an array is converted element by element and
  stays an array.
\<close>

fun to_declared_string :: "(rat \<Rightarrow> string) \<Rightarrow> jsval \<Rightarrow> error + jsval"
  and to_declared_strings :: "(rat \<Rightarrow> string) \<Rightarrow> jsval list \<Rightarrow> error + jsval list" where
  "to_declared_string n2s (JArr xs) =
     (case to_declared_strings n2s xs of Inl e \<Rightarrow> Inl e | Inr ys \<Rightarrow> Inr (JArr ys))"
| "to_declared_string n2s JNull = Inr JNull"
| "to_declared_string n2s JUndefined = Inr JUndefined"
| "to_declared_string n2s v =
     (case js_String n2s v of Inl e \<Rightarrow> Inl e | Inr s \<Rightarrow> Inr (JStr s))"
| "to_declared_strings n2s [] = Inr []"
| "to_declared_strings n2s (x # xs) =
     (case to_declared_string n2s x of
        Inl e \<Rightarrow> Inl e
      | Inr y \<Rightarrow>
          (case to_declared_strings n2s xs of Inl e \<Rightarrow> Inl e | Inr ys \<Rightarrow> Inr (y # ys)))"

text \<open>
  The keys that are not set on the new object: \<open>__proto__\<close> and \<open>constructor\<close>, and
  the keys under which the new object inherits a method.
\<close>

definition skipped_keys :: "string list" where
  "skipped_keys =
     [''__proto__'', ''constructor'', ''toString'', ''toLocaleString'', ''valueOf'',
      ''hasOwnProperty'', ''isPrototypeOf'', ''propertyIsEnumerable'',
      ''__defineGetter__'', ''__defineSetter__'', ''__lookupGetter__'', ''__lookupSetter__'']"

text \<open>
  A property without a declared type is copied: an array element by element, an object
  key by key into a new object. The class of the new object is taken from the property
  \<open>constructor\<close> of the object when it has one of its own; a value there that counts as
  true is not a constructor, and the copy throws a \<open>TypeError\<close>.
\<close>

fun transform_untyped :: "jsval \<Rightarrow> error + jsval"
  and transform_elements :: "jsval list \<Rightarrow> error + jsval list"
  and transform_properties :: "(string \<times> jsval) list \<Rightarrow> error + (string \<times> jsval) list" where
  "transform_untyped (JArr xs) =
     (case transform_elements xs of Inl e \<Rightarrow> Inl e | Inr ys \<Rightarrow> Inr (JArr ys))"
| "transform_untyped (JObj kvs) =
     (if truthy (get_prop kvs ''constructor'') then Inl TypeError
      else case transform_properties kvs of Inl e \<Rightarrow> Inl e | Inr kvs' \<Rightarrow> Inr (JObj kvs'))"
| "transform_untyped v = Inr v"
| "transform_elements [] = Inr []"
| "transform_elements (x # xs) =
     (case transform_untyped x of
        Inl e \<Rightarrow> Inl e
      | Inr y \<Rightarrow>
          (case transform_elements xs of Inl e \<Rightarrow> Inl e | Inr ys \<Rightarrow> Inr (y # ys)))"
| "transform_properties [] = Inr []"
| "transform_properties ((k, v) # kvs) =
     (if k \<in> set skipped_keys then transform_properties kvs
      else case transform_untyped v of
             Inl e \<Rightarrow> Inl e
           | Inr v' \<Rightarrow>
               (case transform_properties kvs of
                  Inl e \<Rightarrow> Inl e
                | Inr kvs' \<Rightarrow> Inr ((k, v') # kvs')))"

text \<open>The loop over the keys of the plain object; \<open>string_props\<close> are the properties
  of the class that are declared \<open>string\<close>.\<close>

fun plainToInstance :: "(rat \<Rightarrow> string) \<Rightarrow> string list \<Rightarrow> object \<Rightarrow> error + object" where
  "plainToInstance n2s string_props [] = Inr []"
| "plainToInstance n2s string_props ((k, v) # plain) =
     (if k \<in> set skipped_keys then plainToInstance n2s string_props plain
      else case (if k \<in> set string_props then to_declared_string n2s v
                 else transform_untyped v) of
             Inl e \<Rightarrow> Inl e
           | Inr v' \<Rightarrow>
               (case plainToInstance n2s string_props plain of
                  Inl e \<Rightarrow> Inl e
                | Inr inst \<Rightarrow> Inr ((k, v') # inst)))"

section \<open>Startup: the settings file and its validation\<close>

text \<open>
  The file system, as far as the startup reads it: a path that exists is a directory,
  or a file, given by the pairs of key and value that \<open>dotenv\<close> parses from it.
\<close>

datatype fs_node = Directory | File "(string \<times> string) list"

type_synonym filesystem = "string \<rightharpoonup> fs_node"

definition existsSync :: "filesystem \<Rightarrow> string \<Rightarrow> bool" where
  "existsSync fs path = (fs path \<noteq> None)"

text \<open>\<open>src/config/env-validation.ts\<close>\<close>

definition validateEnvFile :: "filesystem \<Rightarrow> string \<Rightarrow> error + unit" where
  "validateEnvFile fs envFilePath =
     (if \<not> existsSync fs envFilePath then Inl (EnvFileNotFound envFilePath) else Inr ())"

text \<open>The class \<open>EnvironmentVariables\<close>: one property, declared \<open>string\<close>, with \<open>@IsString()\<close>.\<close>

definition EnvironmentVariables :: class_schema where
  "EnvironmentVariables = [(''MONGODB_URI'', [IsString])]"

definition EnvironmentVariables_strings :: "string list" where
  "EnvironmentVariables_strings = [''MONGODB_URI'']"

definition validateEnvironmentVariables :: "(rat \<Rightarrow> string) \<Rightarrow> object \<Rightarrow> error + object" where
  "validateEnvironmentVariables n2s config =
     (case plainToInstance n2s EnvironmentVariables_strings config of
        Inl e \<Rightarrow> Inl e
      | Inr validatedConfig \<Rightarrow>
          (let errors = validateSync EnvironmentVariables validatedConfig
           in if length errors > 0 then Inl (InvalidEnvironmentConfiguration errors)
              else Inr validatedConfig))"

text \<open>\<open>process.env\<close>: the variables of the environment, each with its text.\<close>

type_synonym process_env = "(string \<times> string) list"

definition getenv :: "process_env \<Rightarrow> string \<Rightarrow> string option" where
  "getenv env name = map_of env name"

text \<open>
  \<open>const envFile = `.env.${process.env.NODE_ENV}`\<close>; a variable that is not set is
  interpolated as the text \<open>undefined\<close>.
\<close>

definition envFile :: "process_env \<Rightarrow> string" where
  "envFile env = ''.env.'' @ (case getenv env ''NODE_ENV'' of None \<Rightarrow> ''undefined'' | Some m \<Rightarrow> m)"

text \<open>
  \<open>ConfigModule.forRoot({ envFilePath, validate })\<close> of the configuration module. It
  reads the file, spreads \<open>process.env\<close> over the settings of the file (a variable of
  the environment wins over the file), hands the result to \<open>validate\<close>, and assigns the
  validated settings that the environment does not have yet to \<open>process.env\<close>.
\<close>

definition settings_of :: "(string \<times> string) list \<Rightarrow> object" where
  "settings_of pairs = map (\<lambda>(k, s). (k, JStr s)) pairs"

text \<open>\<open>{ ...a, ...b }\<close>\<close>

definition spread :: "(string \<times> 'v) list \<Rightarrow> (string \<times> 'v) list \<Rightarrow> (string \<times> 'v) list" where
  "spread a b =
     map (\<lambda>(k, v). (k, case map_of b k of None \<Rightarrow> v | Some w \<Rightarrow> w)) a
     @ filter (\<lambda>(k, w). map_of a k = None) b"

definition assignVariablesToProcess :: "(rat \<Rightarrow> string) \<Rightarrow> object \<Rightarrow> process_env \<Rightarrow> process_env" where
  "assignVariablesToProcess n2s cfg env =
     env @ List.map_filter
       (\<lambda>(k, v). if map_of env k \<noteq> None then None
                  else case v of
                         JStr s \<Rightarrow> Some (k, s)
                       | JBool b \<Rightarrow> Some (k, if b then ''true'' else ''false'')
                       | JNum r \<Rightarrow> Some (k, n2s r)
                       | _ \<Rightarrow> None) cfg"

definition ConfigModule_forRoot ::
    "(rat \<Rightarrow> string) \<Rightarrow> string \<Rightarrow> process_env \<Rightarrow> filesystem \<Rightarrow> error + object \<times> process_env" where
  "ConfigModule_forRoot n2s envFilePath env fs =
     (case (case fs envFilePath of
              None \<Rightarrow> Inr []
            | Some Directory \<Rightarrow> Inl (IsADirectory envFilePath)
            | Some (File pairs) \<Rightarrow> Inr pairs) of
        Inl e \<Rightarrow> Inl e
      | Inr loaded \<Rightarrow>
          (case validateEnvironmentVariables n2s (spread (settings_of loaded) (settings_of env)) of
             Inl e \<Rightarrow> Inl e
           | Inr validatedConfig \<Rightarrow>
               Inr (validatedConfig, assignVariablesToProcess n2s validatedConfig env)))"

text \<open>
  Loading \<open>app.module.ts\<close>: the existence check at the top of the module, then
  \<open>ConfigModule.forRoot\<close> with the \<open>validate\<close> function of the module, which is the
  body of \<open>validateEnvironmentVariables\<close>. The result is the validated configuration
  and the environment as the configuration module leaves it.
\<close>

definition AppModule_load ::
    "(rat \<Rightarrow> string) \<Rightarrow> process_env \<Rightarrow> filesystem \<Rightarrow> error + object \<times> process_env" where
  "AppModule_load n2s env fs =
     (if \<not> existsSync fs (envFile env) then Inl (EnvFileNotFound (envFile env))
      else ConfigModule_forRoot n2s (envFile env) env fs)"

section \<open>Identifiers\<close>

text \<open>
  \<open>mongoose.Types.ObjectId.isValid(id)\<close> on the text of a path parameter: the text is
  an identifier when it is 24 hexadecimal digits, in either case. An identifier is the
  number the digits write, below \<open>16 ^ 24\<close>; \<open>toHexString\<close> writes it back in lower
  case.
\<close>

definition hex_value :: "char \<Rightarrow> nat option" where
  "hex_value c =
     (let n = (of_char c :: nat)
      in if 48 \<le> n \<and> n \<le> 57 then Some (n - 48)
         else if 97 \<le> n \<and> n \<le> 102 then Some (n - 87)
         else if 65 \<le> n \<and> n \<le> 70 then Some (n - 55)
         else None)"

fun parse_hex :: "nat \<Rightarrow> string \<Rightarrow> nat option" where
  "parse_hex acc [] = Some acc"
| "parse_hex acc (c # cs) =
     (case hex_value c of None \<Rightarrow> None | Some d \<Rightarrow> parse_hex (16 * acc + d) cs)"

definition ObjectId_cast :: "string \<Rightarrow> nat option" where
  "ObjectId_cast s = (if length s = 24 then parse_hex 0 s else None)"

definition ObjectId_isValid :: "string \<Rightarrow> bool" where
  "ObjectId_isValid s = (ObjectId_cast s \<noteq> None)"

fun hex_digits :: "nat \<Rightarrow> nat \<Rightarrow> string" where
  "hex_digits 0 n = []"
| "hex_digits (Suc k) n = hex_digits k (n div 16) @ [''0123456789abcdef'' ! (n mod 16)]"

definition toHexString :: "nat \<Rightarrow> string" where
  "toHexString n = hex_digits 24 n"

section \<open>The persistence accessor\<close>

text \<open>
  Modelled from the spec: the Mongoose model of \<open>src/schemas/Product.schema\<close>, which is
  not among the sources. The spec has it as a document store keyed by an opaque
  identifier, with create, find-all, find-by-id, update-by-id and delete-by-id, and a
  product with the attributes name, description, price and category. A stored document
  is its identifier and its attributes; the store hands out identifiers in sequence and
  keeps a journal of the calls it receives.
\<close>

type_synonym document = "nat \<times> object"

datatype dbcall =
    Save object
  | Find
  | FindById string
  | FindByIdAndUpdate string object
  | FindByIdAndDelete string

record store =
  docs :: "document list"
  next_id :: nat
  journal :: "dbcall list"

definition Product_attributes :: "string list" where
  "Product_attributes = [''name'', ''description'', ''price'', ''category'']"

definition attributes_of :: "object \<Rightarrow> object" where
  "attributes_of obj = AList.restrict (set Product_attributes) obj"

text \<open>An identifier that is not well-formed makes the query fail (a cast error).\<close>

datatype cast_error = CastError string

definition Model_save :: "object \<Rightarrow> store \<Rightarrow> document \<times> store" where
  "Model_save obj st =
     (let doc = (next_id st, attributes_of obj)
      in (doc, st\<lparr>docs := docs st @ [doc], next_id := Suc (next_id st),
                   journal := journal st @ [Save obj]\<rparr>))"

definition Model_find :: "store \<Rightarrow> document list \<times> store" where
  "Model_find st = (docs st, st\<lparr>journal := journal st @ [Find]\<rparr>)"

definition Model_findById :: "string \<Rightarrow> store \<Rightarrow> (cast_error + document option) \<times> store" where
  "Model_findById oid st =
     (case ObjectId_cast oid of
        None \<Rightarrow> Inl (CastError oid)
      | Some k \<Rightarrow> Inr (map_option (Pair k) (map_of (docs st) k)),
      st\<lparr>journal := journal st @ [FindById oid]\<rparr>)"

text \<open>
  \<open>findByIdAndUpdate(oid, update, { new: true })\<close> sets the attributes the update names
  and leaves the others; it yields the document after the update.
\<close>

definition Model_findByIdAndUpdate ::
    "string \<Rightarrow> object \<Rightarrow> store \<Rightarrow> (cast_error + document option) \<times> store" where
  "Model_findByIdAndUpdate oid upd st =
     (let st' = st\<lparr>journal := journal st @ [FindByIdAndUpdate oid upd]\<rparr>
      in case ObjectId_cast oid of
           None \<Rightarrow> (Inl (CastError oid), st')
         | Some k \<Rightarrow>
             (case map_of (docs st) k of
                None \<Rightarrow> (Inr None, st')
              | Some old \<Rightarrow>
                  (let new = AList.merge old (attributes_of upd)
                   in (Inr (Some (k, new)), st'\<lparr>docs := AList.update k new (docs st)\<rparr>))))"

definition Model_findByIdAndDelete ::
    "string \<Rightarrow> store \<Rightarrow> (cast_error + document option) \<times> store" where
  "Model_findByIdAndDelete oid st =
     (let st' = st\<lparr>journal := journal st @ [FindByIdAndDelete oid]\<rparr>
      in case ObjectId_cast oid of
           None \<Rightarrow> (Inl (CastError oid), st')
         | Some k \<Rightarrow>
             (case map_of (docs st) k of
                None \<Rightarrow> (Inr None, st')
              | Some old \<Rightarrow> (Inr (Some (k, old)), st'\<lparr>docs := AList.delete k (docs st)\<rparr>)))"

text \<open>A document as it is serialised in a response.\<close>

definition document_json :: "document \<Rightarrow> jsval" where
  "document_json d = JObj ((''_id'', JStr (toHexString (fst d))) # snd d)"

section \<open>The products resource\<close>

text \<open>
  \<open>CreateProductDto\<close> as the source file declares it, and as the README prints it
  (with \<open>@Min(0)\<close> on the price, and a category); \<open>UpdateProductDto\<close> as the README
  prints it.
\<close>

definition CreateProductDto :: class_schema where
  "CreateProductDto =
     [(''name'', [IsNotEmpty, IsString]),
      (''description'', [IsString, IsOptional]),
      (''price'', [IsNotEmpty, IsNumber])]"

definition CreateProductDto_README :: class_schema where
  "CreateProductDto_README =
     [(''name'', [IsNotEmpty, IsString]),
      (''description'', [IsString, IsOptional]),
      (''price'', [IsNotEmpty, IsNumber, MinOf 0]),
      (''category'', [IsString, IsOptional])]"

definition UpdateProductDto :: class_schema where
  "UpdateProductDto =
     [(''name'', [IsOptional, IsString]),
      (''description'', [IsOptional, IsString]),
      (''price'', [IsOptional, IsNumber, MinOf 0]),
      (''category'', [IsOptional, IsString]),
      (''imageUrl'', [IsOptional, IsString])]"

text \<open>
  What a handler throws: an \<open>HttpException\<close> with its message and status, the
  \<open>BadRequestException\<close> of the validation pipe with the properties that failed, or
  an error of the store that the handler does not catch.
\<close>

datatype http_exception =
    HttpException string nat
  | BadRequestException "string list"
  | Unhandled cast_error

type_synonym 'a handled = "(http_exception + 'a) \<times> store"

text \<open>
  \<open>new ValidationPipe()\<close> on a body: the body is validated against the class of the
  parameter, without conversion, and handed on as it is.
\<close>

definition ValidationPipe :: "class_schema \<Rightarrow> object \<Rightarrow> http_exception + object" where
  "ValidationPipe cls value =
     (let errors = validateSync cls value
      in if length errors > 0 then Inl (BadRequestException errors) else Inr value)"

subsection \<open>\<open>ProductsService\<close>\<close>

definition ProductsService_createProduct :: "object \<Rightarrow> store \<Rightarrow> document \<times> store" where
  "ProductsService_createProduct createProductDto st = Model_save createProductDto st"

definition ProductsService_getProducts :: "store \<Rightarrow> document list \<times> store" where
  "ProductsService_getProducts st = Model_find st"

definition ProductsService_getProductById ::
    "string \<Rightarrow> store \<Rightarrow> (cast_error + document option) \<times> store" where
  "ProductsService_getProductById oid st = Model_findById oid st"

definition ProductsService_updateProduct ::
    "string \<Rightarrow> object \<Rightarrow> store \<Rightarrow> (cast_error + document option) \<times> store" where
  "ProductsService_updateProduct oid updateProductDto st =
     Model_findByIdAndUpdate oid updateProductDto st"

definition ProductsService_deleteProduct ::
    "string \<Rightarrow> store \<Rightarrow> (cast_error + document option) \<times> store" where
  "ProductsService_deleteProduct oid st = Model_findByIdAndDelete oid st"

subsection \<open>\<open>ProductsController\<close>\<close>

definition ProductsController_createProduct :: "object \<Rightarrow> store \<Rightarrow> jsval handled" where
  "ProductsController_createProduct createProductDto st =
     (let (newProduct, st') = ProductsService_createProduct createProductDto st
      in (Inr (JObj [(''message'', JStr ''Product created successfully''),
                     (''product'', document_json newProduct)]), st'))"

definition ProductsController_getProducts :: "store \<Rightarrow> jsval handled" where
  "ProductsController_getProducts st =
     (let (products, st') = ProductsService_getProducts st
      in (Inr (JObj [(''count'', JNum (of_nat (length products))),
                     (''products'', JArr (map document_json products))]), st'))"

definition ProductsController_getProductById :: "string \<Rightarrow> store \<Rightarrow> jsval handled" where
  "ProductsController_getProductById oid st =
     (if \<not> ObjectId_isValid oid then (Inl (HttpException ''Invalid ID format'' 400), st)
      else case ProductsService_getProductById oid st of
             (Inl e, st') \<Rightarrow> (Inl (Unhandled e), st')
           | (Inr None, st') \<Rightarrow> (Inl (HttpException ''Product not found'' 404), st')
           | (Inr (Some product), st') \<Rightarrow>
               (Inr (JObj [(''message'', JStr ''Product retrieved successfully''),
                           (''product'', document_json product)]), st'))"

definition ProductsController_updateProductById ::
    "string \<Rightarrow> object \<Rightarrow> store \<Rightarrow> jsval handled" where
  "ProductsController_updateProductById oid updateProductDto st =
     (if \<not> ObjectId_isValid oid then (Inl (HttpException ''Invalid ID format'' 400), st)
      else case ProductsService_updateProduct oid updateProductDto st of
             (Inl e, st') \<Rightarrow> (Inl (Unhandled e), st')
           | (Inr None, st') \<Rightarrow> (Inl (HttpException ''Product not found'' 404), st')
           | (Inr (Some updatedProduct), st') \<Rightarrow>
               (Inr (JObj [(''message'', JStr ''Product successfully updated''),
                           (''product'', document_json updatedProduct)]), st'))"

definition ProductsController_deleteProduct :: "string \<Rightarrow> store \<Rightarrow> jsval handled" where
  "ProductsController_deleteProduct oid st =
     (if \<not> ObjectId_isValid oid then (Inl (HttpException ''Invalid ID format'' 400), st)
      else case ProductsService_deleteProduct oid st of
             (Inl e, st') \<Rightarrow> (Inl (Unhandled e), st')
           | (Inr None, st') \<Rightarrow> (Inl (HttpException ''Product not found'' 404), st')
           | (Inr (Some deletedProduct), st') \<Rightarrow>
               (Inr (JObj [(''message'', JStr ''Product successfully deleted'')]), st'))"

text \<open>
  The routes with their pipes: \<open>@Post()\<close> and \<open>@Patch(':id')\<close> carry
  \<open>@UsePipes(new ValidationPipe())\<close>, which runs before the method.
\<close>

definition POST_products :: "object \<Rightarrow> store \<Rightarrow> jsval handled" where
  "POST_products body st =
     (case ValidationPipe CreateProductDto body of
        Inl e \<Rightarrow> (Inl e, st)
      | Inr createProductDto \<Rightarrow> ProductsController_createProduct createProductDto st)"

definition PATCH_products :: "string \<Rightarrow> object \<Rightarrow> store \<Rightarrow> jsval handled" where
  "PATCH_products oid body st =
     (case ValidationPipe UpdateProductDto body of
        Inl e \<Rightarrow> (Inl e, st)
      | Inr updateProductDto \<Rightarrow> ProductsController_updateProductById oid updateProductDto st)"

section \<open>Requests, responses and the middleware chain\<close>

record request =
  req_method :: string
  originalUrl :: string
  headers :: "string \<rightharpoonup> string"
  body :: object

record response =
  status :: nat
  json :: jsval

text \<open>What a request can change or write to: the console and the store.\<close>

record world =
  console :: "string list"
  db :: store

text \<open>
  The framework turns what a handler returns or throws into the response: the status
  of the route on success (201 for \<open>@Post()\<close>, 200 otherwise), the status of the
  exception, 400 for the validation pipe, 500 for anything else.
\<close>

definition to_response :: "nat \<Rightarrow> http_exception + jsval \<Rightarrow> response" where
  "to_response ok r =
     (case r of
        Inr v \<Rightarrow> \<lparr>status = ok, json = v\<rparr>
      | Inl (HttpException msg code) \<Rightarrow>
          \<lparr>status = code, json = JObj [(''statusCode'', JNum (of_nat code)), (''message'', JStr msg)]\<rparr>
      | Inl (BadRequestException props) \<Rightarrow>
          \<lparr>status = 400, json = JObj [(''statusCode'', JNum 400), (''message'', JArr (map JStr props)),
                                     (''error'', JStr ''Bad Request'')]\<rparr>
      | Inl (Unhandled e) \<Rightarrow>
          \<lparr>status = 500, json = JObj [(''statusCode'', JNum 500),
                                     (''message'', JStr ''Internal server error'')]\<rparr>)"

type_synonym handler = "request \<Rightarrow> world \<Rightarrow> response \<times> world"

definition on_store :: "nat \<Rightarrow> (store \<Rightarrow> jsval handled) \<Rightarrow> world \<Rightarrow> response \<times> world" where
  "on_store ok f w = (let (r, st') = f (db w) in (to_response ok r, w\<lparr>db := st'\<rparr>))"

fun split_on :: "char \<Rightarrow> string \<Rightarrow> string list" where
  "split_on c [] = [[]]"
| "split_on c (x # xs) =
     (if x = c then [] # split_on c xs
      else case split_on c xs of [] \<Rightarrow> [[x]] | s # ss \<Rightarrow> (x # s) # ss)"

definition path_segments :: "string \<Rightarrow> string list" where
  "path_segments url =
     filter (\<lambda>s. s \<noteq> []) (split_on (CHR ''/'') (takeWhile (\<lambda>c. c \<noteq> CHR ''?'') url))"

text \<open>
  The router, for the routes of \<open>ProductsController\<close>. The other controllers of the
  application (their services are not among the sources) are the parameter \<open>other\<close>.
  A path is compared segment by segment, as it is written, without its query; the body
  is the object the body parser of the framework yields.
\<close>

definition router :: "handler \<Rightarrow> handler" where
  "router other req w =
     (let m = req_method req; segs = path_segments (originalUrl req)
      in if segs = [''products''] \<and> m = ''POST'' then on_store 201 (POST_products (body req)) w
         else if segs = [''products''] \<and> m = ''GET'' then on_store 200 ProductsController_getProducts w
         else case segs of
                [p, oid] \<Rightarrow>
                  if p = ''products'' \<and> m = ''GET''
                    then on_store 200 (ProductsController_getProductById oid) w
                  else if p = ''products'' \<and> m = ''PATCH''
                    then on_store 200 (PATCH_products oid (body req)) w
                  else if p = ''products'' \<and> m = ''DELETE''
                    then on_store 200 (ProductsController_deleteProduct oid) w
                  else other req w
              | _ \<Rightarrow> other req w)"

text \<open>A middleware either calls \<open>next()\<close> or ends the cycle with a response.\<close>

datatype outcome = Next | Respond response

type_synonym middleware = "request \<Rightarrow> world \<Rightarrow> outcome \<times> world"

definition LoggerMiddleware :: middleware where
  "LoggerMiddleware req w =
     (Next, w\<lparr>console := console w @ [''Incoming Request: '' @ req_method req @ '', '' @ originalUrl req]\<rparr>)"

text \<open>
  \<open>AuthMiddleware.use\<close>: \<open>!token\<close> holds for a header that is not there and for the
  empty text.
\<close>

definition AuthMiddleware_use :: middleware where
  "AuthMiddleware_use req w =
     (case headers req ''authorization'' of
        None \<Rightarrow> (Respond \<lparr>status = 403, json = JObj [(''message'', JStr ''Unauthorized'')]\<rparr>, w)
      | Some token \<Rightarrow>
          if token = [] then (Respond \<lparr>status = 403, json = JObj [(''message'', JStr ''Unauthorized'')]\<rparr>, w)
          else (Next, w\<lparr>console := console w @ [''User authenticated with token: '' @ token]\<rparr>))"

text \<open>
  A middleware is registered for a pattern of routes: \<open>'*'\<close> (and \<open>app.use\<close> without
  a path) is every route.
\<close>

datatype route_pattern = Wildcard | RoutePath string

fun matches :: "route_pattern \<Rightarrow> request \<Rightarrow> bool" where
  "matches Wildcard req = True"
| "matches (RoutePath p) req = (path_segments (originalUrl req) = path_segments p)"

type_synonym layer = "route_pattern \<times> middleware"

fun run_stack :: "layer list \<Rightarrow> request \<Rightarrow> world \<Rightarrow> outcome \<times> world" where
  "run_stack [] req w = (Next, w)"
| "run_stack ((pat, mw) # ls) req w =
     (if matches pat req
      then case mw req w of
             (Next, w') \<Rightarrow> run_stack ls req w'
           | (Respond r, w') \<Rightarrow> (Respond r, w')
      else run_stack ls req w)"

text \<open>
  The application: the stack of the HTTP adapter, the middleware the module configures
  (registered when the application is initialised, which \<open>listen\<close> does), and the port
  once it listens.
\<close>

record app =
  config :: object
  stack :: "layer list"
  module_middleware :: "layer list"
  initialized :: bool
  listening :: "jsval option"

text \<open>\<open>AppModule.configure\<close>: \<open>consumer.apply(AuthMiddleware).forRoutes('*')\<close>.\<close>

definition AppModule_configure :: "layer list" where
  "AppModule_configure = [(Wildcard, AuthMiddleware_use)]"

definition NestFactory_create :: "object \<Rightarrow> app" where
  "NestFactory_create cfg =
     \<lparr>config = cfg, stack = [], module_middleware = AppModule_configure,
      initialized = False, listening = None\<rparr>"

definition app_use :: "middleware \<Rightarrow> app \<Rightarrow> app" where
  "app_use mw a = a\<lparr>stack := stack a @ [(Wildcard, mw)]\<rparr>"

definition app_init :: "app \<Rightarrow> app" where
  "app_init a =
     (if initialized a then a
      else a\<lparr>stack := stack a @ module_middleware a, initialized := True\<rparr>)"

definition app_listen :: "jsval \<Rightarrow> app \<Rightarrow> app" where
  "app_listen p a = (app_init a)\<lparr>listening := Some p\<rparr>"

text \<open>
  \<open>main.ts\<close>: \<open>bootstrap\<close>, and the program, which loads the module first;
  \<open>bootstrap\<close> reads the port from the environment as the module leaves it. Creating
  the application and opening the listener are taken to succeed: the connection to the
  database and the port are outside the sources.
\<close>

definition bootstrap :: "process_env \<Rightarrow> object \<Rightarrow> app" where
  "bootstrap env cfg =
     (let a = NestFactory_create cfg;
          a = app_use LoggerMiddleware a
      in app_listen (case getenv env ''PORT'' of None \<Rightarrow> JNum 3000 | Some p \<Rightarrow> JStr p) a)"

definition main :: "(rat \<Rightarrow> string) \<Rightarrow> process_env \<Rightarrow> filesystem \<Rightarrow> error + app" where
  "main n2s env fs =
     (case AppModule_load n2s env fs of
        Inl e \<Rightarrow> Inl e
      | Inr (cfg, env') \<Rightarrow> Inr (bootstrap env' cfg))"

text \<open>
  A request to the application: nothing answers while it does not listen; otherwise
  the stack runs, and the router after it when every middleware called \<open>next()\<close>.
\<close>

definition serve :: "app \<Rightarrow> handler \<Rightarrow> request \<Rightarrow> world \<Rightarrow> (response \<times> world) option" where
  "serve a h req w =
     (case listening a of
        None \<Rightarrow> None
      | Some p \<Rightarrow>
          Some (case run_stack (stack a) req w of
                  (Respond r, w') \<Rightarrow> (r, w')
                | (Next, w') \<Rightarrow> h req w'))"

section \<open>Well-formed stores and example data\<close>

text \<open>
  The store hands out identifiers in sequence: every stored identifier is below the
  next one, and the next one is still an identifier of 24 hexadecimal digits.
\<close>

definition wf_store :: "store \<Rightarrow> bool" where
  "wf_store st = (list_all (\<lambda>d. fst d < next_id st) (docs st) \<and> next_id st < 16 ^ 24)"

definition empty_store :: store where
  "empty_store = \<lparr>docs = [], next_id = 0, journal = []\<rparr>"

definition initial_world :: world where
  "initial_world = \<lparr>console = [], db = empty_store\<rparr>"

text \<open>The answer of the framework to a request that no route matches.\<close>

definition no_route :: handler where
  "no_route req w =
     (\<lparr>status = 404,
       json = JObj [(''message'', JStr (''Cannot '' @ req_method req @ '' '' @ originalUrl req)),
                    (''error'', JStr ''Not Found''), (''statusCode'', JNum 404)]\<rparr>, w)"

text \<open>The settings of \<open>.env.dev\<close> and the product of the README.\<close>

definition dev_env :: process_env where
  "dev_env = [(''NODE_ENV'', ''dev'')]"

definition dev_file :: "(string \<times> string) list" where
  "dev_file = [(''MONGODB_URI'', ''mongodb://127.0.0.1:27017/dev_db'')]"

definition dev_settings :: object where
  "dev_settings = [(''MONGODB_URI'', JStr ''mongodb://127.0.0.1:27017/dev_db'')]"

definition Laptop :: object where
  "Laptop =
     [(''name'', JStr ''Laptop''),
      (''price'', JNum 999.99),
      (''description'', JStr ''High-performance laptop''),
      (''category'', JStr ''Electronics'')]"

section \<open>The request gate\<close>

lemma stack_bootstrap:
  "stack (bootstrap env cfg) = [(Wildcard, LoggerMiddleware), (Wildcard, AuthMiddleware_use)]"
  by (simp add: bootstrap_def NestFactory_create_def app_use_def app_listen_def app_init_def
      AppModule_configure_def)

lemma listening_bootstrap:
  "listening (bootstrap env cfg) =
     Some (case getenv env ''PORT'' of None \<Rightarrow> JNum 3000 | Some p \<Rightarrow> JStr p)"
  by (simp add: bootstrap_def NestFactory_create_def app_use_def app_listen_def app_init_def)

lemma run_gate_rejects:
  "headers req ''authorization'' = None \<or> headers req ''authorization'' = Some [] \<Longrightarrow>
   run_stack [(Wildcard, LoggerMiddleware), (Wildcard, AuthMiddleware_use)] req w =
     (Respond \<lparr>status = 403, json = JObj [(''message'', JStr ''Unauthorized'')]\<rparr>,
      w\<lparr>console := console w @ [''Incoming Request: '' @ req_method req @ '', '' @ originalUrl req]\<rparr>)"
  by (auto simp add: LoggerMiddleware_def AuthMiddleware_use_def)

lemma run_gate_passes:
  "headers req ''authorization'' = Some token \<Longrightarrow> token \<noteq> [] \<Longrightarrow>
   run_stack [(Wildcard, LoggerMiddleware), (Wildcard, AuthMiddleware_use)] req w =
     (Next,
      w\<lparr>console := console w @ [''Incoming Request: '' @ req_method req @ '', '' @ originalUrl req,
                                  ''User authenticated with token: '' @ token]\<rparr>)"
  by (simp add: LoggerMiddleware_def AuthMiddleware_use_def)

text \<open>
  C1. On every route, a request without the authorization header is answered 403 with
  the body \<open>{"message":"Unauthorized"}\<close>: the answer does not depend on the handler, and
  the world after it is the world before it with the line of the logger on the console,
  so no handler ran and the store received no call. A request whose header holds a
  non-empty value is handed to the handler of its route.
\<close>

theorem gate_authorization:
  "(headers req ''authorization'' = None \<longrightarrow>
      serve (bootstrap env cfg) h req w =
        Some (\<lparr>status = 403, json = JObj [(''message'', JStr ''Unauthorized'')]\<rparr>,
              w\<lparr>console := console w @ [''Incoming Request: '' @ req_method req @ '', '' @ originalUrl req]\<rparr>))
   \<and> (\<forall>token. headers req ''authorization'' = Some token \<and> token \<noteq> [] \<longrightarrow>
      serve (bootstrap env cfg) h req w =
        Some (h req (w\<lparr>console := console w @
                [''Incoming Request: '' @ req_method req @ '', '' @ originalUrl req,
                 ''User authenticated with token: '' @ token]\<rparr>)))"
  by (simp add: serve_def stack_bootstrap listening_bootstrap run_gate_rejects run_gate_passes
      del: run_stack.simps)

theorem gate_authorization_witness:
  "serve (bootstrap dev_env dev_settings) (router no_route)
     \<lparr>req_method = ''GET'', originalUrl = ''/products'', headers = Map.empty, body = []\<rparr> initial_world =
     Some (\<lparr>status = 403, json = JObj [(''message'', JStr ''Unauthorized'')]\<rparr>,
           \<lparr>console = [''Incoming Request: GET, /products''], db = empty_store\<rparr>)
   \<and> serve (bootstrap dev_env dev_settings) (router no_route)
     \<lparr>req_method = ''GET'', originalUrl = ''/products'',
      headers = [''authorization'' \<mapsto> ''Bearer abc''], body = []\<rparr> initial_world =
     Some (\<lparr>status = 200, json = JObj [(''count'', JNum 0), (''products'', JArr [])]\<rparr>,
           \<lparr>console = [''Incoming Request: GET, /products'',
                       ''User authenticated with token: Bearer abc''],
            db = \<lparr>docs = [], next_id = 0, journal = [Find]\<rparr>\<rparr>)"
  using
    gate_authorization [where req = "\<lparr>req_method = ''GET'', originalUrl = ''/products'',
        headers = Map.empty, body = []\<rparr>" and h = "router no_route" and w = initial_world
        and env = dev_env and cfg = dev_settings]
    gate_authorization [where req = "\<lparr>req_method = ''GET'', originalUrl = ''/products'',
        headers = [''authorization'' \<mapsto> ''Bearer abc''], body = []\<rparr>" and h = "router no_route"
        and w = initial_world and env = dev_env and cfg = dev_settings]
  by (simp add: initial_world_def empty_store_def router_def path_segments_def on_store_def
      ProductsController_getProducts_def ProductsService_getProducts_def Model_find_def
      to_response_def)

text \<open>
  C2. The application that \<open>bootstrap\<close> builds has the logger first and the
  authorization check second in its stack, both registered for every route. For every
  request the logger runs on the world as the request finds it and calls \<open>next()\<close>; the
  authorization check runs on the world the logger leaves; the handler of the route runs
  on the world the authorization check leaves, and only when that check called
  \<open>next()\<close>.
\<close>

theorem gate_order:
  "stack (bootstrap env cfg) = [(Wildcard, LoggerMiddleware), (Wildcard, AuthMiddleware_use)]
   \<and> matches Wildcard req
   \<and> fst (LoggerMiddleware req w) = Next
   \<and> serve (bootstrap env cfg) h req w =
       Some (case AuthMiddleware_use req (snd (LoggerMiddleware req w)) of
               (Next, w2) \<Rightarrow> h req w2
             | (Respond r, w2) \<Rightarrow> (r, w2))"
  by (simp add: serve_def stack_bootstrap listening_bootstrap LoggerMiddleware_def
      split: prod.splits outcome.splits)

theorem gate_order_witness:
  "serve (bootstrap dev_env dev_settings) (router no_route)
     \<lparr>req_method = ''DELETE'', originalUrl = ''/products/507f1f77bcf86cd799439011'',
      headers = [''authorization'' \<mapsto> ''t''], body = []\<rparr> initial_world =
     Some (\<lparr>status = 404,
            json = JObj [(''statusCode'', JNum 404), (''message'', JStr ''Product not found'')]\<rparr>,
           \<lparr>console = [''Incoming Request: DELETE, /products/507f1f77bcf86cd799439011'',
                       ''User authenticated with token: t''],
            db = \<lparr>docs = [], next_id = 0,
                  journal = [FindByIdAndDelete ''507f1f77bcf86cd799439011'']\<rparr>\<rparr>)"
  using
    gate_order [where req = "\<lparr>req_method = ''DELETE'',
        originalUrl = ''/products/507f1f77bcf86cd799439011'',
        headers = [''authorization'' \<mapsto> ''t''], body = []\<rparr>" and h = "router no_route"
        and w = initial_world and env = dev_env and cfg = dev_settings]
  by (simp add: initial_world_def empty_store_def router_def path_segments_def on_store_def
      LoggerMiddleware_def AuthMiddleware_use_def
      ProductsController_deleteProduct_def ProductsService_deleteProduct_def
      Model_findByIdAndDelete_def ObjectId_isValid_def ObjectId_cast_def hex_value_def
      to_response_def)

text \<open>
  C10. A request whose authorization header is the empty text is answered 403 with the
  body \<open>{"message":"Unauthorized"}\<close>, as the same request without the header is; and the
  chain hands a request on exactly when its header holds a non-empty value.
\<close>

theorem gate_empty_token:
  "(headers req ''authorization'' = Some [] \<longrightarrow>
      serve (bootstrap env cfg) h req w =
        Some (\<lparr>status = 403, json = JObj [(''message'', JStr ''Unauthorized'')]\<rparr>,
              w\<lparr>console := console w @ [''Incoming Request: '' @ req_method req @ '', '' @ originalUrl req]\<rparr>)
      \<and> serve (bootstrap env cfg) h req w =
          serve (bootstrap env cfg) h (req\<lparr>headers := (headers req)(''authorization'' := None)\<rparr>) w)
   \<and> (fst (run_stack (stack (bootstrap env cfg)) req w) = Next \<longleftrightarrow>
        (\<exists>token. headers req ''authorization'' = Some token \<and> token \<noteq> []))"
proof -
  have a: "headers req ''authorization'' = Some [] \<Longrightarrow>
      serve (bootstrap env cfg) h req w =
        Some (\<lparr>status = 403, json = JObj [(''message'', JStr ''Unauthorized'')]\<rparr>,
              w\<lparr>console := console w @ [''Incoming Request: '' @ req_method req @ '', '' @ originalUrl req]\<rparr>)"
    by (simp add: serve_def stack_bootstrap listening_bootstrap run_gate_rejects
        del: run_stack.simps)
  have b: "serve (bootstrap env cfg) h (req\<lparr>headers := (headers req)(''authorization'' := None)\<rparr>) w =
        Some (\<lparr>status = 403, json = JObj [(''message'', JStr ''Unauthorized'')]\<rparr>,
              w\<lparr>console := console w @ [''Incoming Request: '' @ req_method req @ '', '' @ originalUrl req]\<rparr>)"
    by (simp add: serve_def stack_bootstrap listening_bootstrap run_gate_rejects
        del: run_stack.simps)
  have c: "fst (run_stack (stack (bootstrap env cfg)) req w) = Next \<longleftrightarrow>
        (\<exists>token. headers req ''authorization'' = Some token \<and> token \<noteq> [])"
  proof (cases "headers req ''authorization''")
    case None
    then show ?thesis by (simp add: stack_bootstrap run_gate_rejects del: run_stack.simps)
  next
    case (Some t)
    then show ?thesis
      by (cases "t = []")
         (simp_all add: stack_bootstrap run_gate_rejects run_gate_passes del: run_stack.simps)
  qed
  from a b c show ?thesis by simp
qed

theorem gate_empty_token_witness:
  "serve (bootstrap dev_env dev_settings) (router no_route)
     \<lparr>req_method = ''POST'', originalUrl = ''/products'',
      headers = [''authorization'' \<mapsto> []], body = Laptop\<rparr> initial_world =
     Some (\<lparr>status = 403, json = JObj [(''message'', JStr ''Unauthorized'')]\<rparr>,
           \<lparr>console = [''Incoming Request: POST, /products''], db = empty_store\<rparr>)"
  using
    gate_empty_token [where req = "\<lparr>req_method = ''POST'', originalUrl = ''/products'',
        headers = [''authorization'' \<mapsto> []], body = Laptop\<rparr>" and h = "router no_route"
        and w = initial_world and env = dev_env and cfg = dev_settings]
  by (simp add: initial_world_def)

section \<open>Startup\<close>

text \<open>
  C3. When the file \<open>.env.M\<close> of the mode \<open>M\<close> does not exist, the program ends with
  the error that the environment file was not found, as \<open>validateEnvFile\<close> does on that
  path; no application is created, so nothing listens, and no other settings are used.
\<close>

theorem missing_env_file:
  "getenv env ''NODE_ENV'' = Some M \<Longrightarrow> fs (''.env.'' @ M) = None \<Longrightarrow>
   main n2s env fs = Inl (EnvFileNotFound (''.env.'' @ M))
   \<and> validateEnvFile fs (''.env.'' @ M) = Inl (EnvFileNotFound (''.env.'' @ M))
   \<and> (\<forall>a. main n2s env fs \<noteq> Inr a)"
  by (simp add: main_def AppModule_load_def envFile_def existsSync_def validateEnvFile_def)

theorem missing_env_file_witness:
  "getenv [(''NODE_ENV'', ''prod''), (''MONGODB_URI'', ''mongodb://db/prod'')] ''NODE_ENV'' = Some ''prod''
   \<and> [''.env.dev'' \<mapsto> File dev_file] ''.env.prod'' = None
   \<and> main decimal [(''NODE_ENV'', ''prod''), (''MONGODB_URI'', ''mongodb://db/prod'')]
         [''.env.dev'' \<mapsto> File dev_file] =
       Inl (EnvFileNotFound ''.env.prod'')"
proof -
  have m: "getenv [(''NODE_ENV'', ''prod''), (''MONGODB_URI'', ''mongodb://db/prod'')] ''NODE_ENV'' =
      Some ''prod''"
    by (simp add: getenv_def)
  have h: "[''.env.dev'' \<mapsto> File dev_file] (''.env.'' @ ''prod'') = None" by simp
  show ?thesis
    using missing_env_file [where fs = "[''.env.dev'' \<mapsto> File dev_file]" and M = "''prod''"
        and n2s = decimal, OF m h] m h
    by simp
qed






















section \<open>Identifiers\<close>

lemma hex_value_digit: "d < 16 \<Longrightarrow> hex_value (''0123456789abcdef'' ! d) = Some d"
proof -
  assume "d < 16"
  then have "d \<in> {0, 1, 2, 3, 4, 5, 6, 7, 8, 9, 10, 11, 12, 13, 14, 15}" by simp arith
  then show ?thesis
    by (elim insertE emptyE) (simp_all add: hex_value_def)
qed

lemma parse_hex_snoc:
  "parse_hex acc (xs @ [c]) =
     (case parse_hex acc xs of
        None \<Rightarrow> None
      | Some a \<Rightarrow> (case hex_value c of None \<Rightarrow> None | Some d \<Rightarrow> Some (16 * a + d)))"
  by (induction xs arbitrary: acc) (auto split: option.splits)

lemma length_hex_digits: "length (hex_digits k n) = k"
  by (induction k arbitrary: n) simp_all

lemma parse_hex_digits: "parse_hex acc (hex_digits k n) = Some (acc * 16 ^ k + n mod 16 ^ k)"
proof (induction k arbitrary: n)
  case 0
  then show ?case by simp
next
  case (Suc k)
  have d: "hex_value (''0123456789abcdef'' ! (n mod 16)) = Some (n mod 16)"
    by (rule hex_value_digit) simp
  have m: "n mod (16 * 16 ^ k) = 16 * (n div 16 mod 16 ^ k) + n mod 16"
    by (simp add: mod_mult2_eq)
  show ?case
    by (simp add: parse_hex_snoc Suc.IH d m algebra_simps del: nth_Cons_numeral)
qed

lemma ObjectId_cast_toHexString: "n < 16 ^ 24 \<Longrightarrow> ObjectId_cast (toHexString n) = Some n"
  by (simp add: ObjectId_cast_def toHexString_def length_hex_digits parse_hex_digits
      del: hex_digits.simps)

lemma not_a_valid_id: "\<not> ObjectId_isValid ''not-a-valid-id''"
  by (simp add: ObjectId_isValid_def ObjectId_cast_def)

lemma valid_example: "ObjectId_cast ''00000000000000000000002a'' = Some 42"
  by (simp add: ObjectId_cast_def hex_value_def)

lemma toHexString_0: "toHexString 0 = ''000000000000000000000000''"
  by code_simp

section \<open>The products resource\<close>

text \<open>
  C5. The create route validates the body against \<open>CreateProductDto\<close> as the source file
  declares it, which has no lower bound on the price: a body with the price \<open>-5\<close> passes
  the pipe, is saved, and is answered 201. The class the README prints rejects it.
\<close>

theorem create_accepts_negative_price:
  "router no_route
     \<lparr>req_method = ''POST'', originalUrl = ''/products'', headers = Map.empty,
      body = [(''name'', JStr ''Laptop''), (''price'', JNum (- 5))]\<rparr> initial_world =
     (\<lparr>status = 201,
       json = JObj [(''message'', JStr ''Product created successfully''),
                    (''product'', JObj [(''_id'', JStr ''000000000000000000000000''),
                                        (''name'', JStr ''Laptop''), (''price'', JNum (- 5))])]\<rparr>,
      \<lparr>console = [],
       db = \<lparr>docs = [(0, [(''name'', JStr ''Laptop''), (''price'', JNum (- 5))])], next_id = 1,
             journal = [Save [(''name'', JStr ''Laptop''), (''price'', JNum (- 5))]]\<rparr>\<rparr>)
   \<and> ValidationPipe CreateProductDto_README [(''name'', JStr ''Laptop''), (''price'', JNum (- 5))] =
       Inl (BadRequestException [''price''])"
  by (simp add: router_def path_segments_def on_store_def POST_products_def ValidationPipe_def
      validateSync_def CreateProductDto_def CreateProductDto_README_def property_ok_def
      get_prop_def ProductsController_createProduct_def ProductsService_createProduct_def
      Model_save_def attributes_of_def Product_attributes_def AList.restrict_eq
      document_json_def toHexString_0 to_response_def initial_world_def empty_store_def Let_def)

text \<open>
  C6. Each of get-by-id, update-by-id and delete-by-id answers an identifier that is not
  well-formed with 400 and leaves the store as it is, the journal of its calls included;
  with a well-formed identifier for which the store returns no record, each answers 404.
  \<open>GET /products/not-a-valid-id\<close> is answered 400, whatever the store holds.
\<close>

theorem identifier_checked_first:
  "(\<not> ObjectId_isValid oid \<longrightarrow>
      ProductsController_getProductById oid st = (Inl (HttpException ''Invalid ID format'' 400), st)
    \<and> ProductsController_updateProductById oid dto st = (Inl (HttpException ''Invalid ID format'' 400), st)
    \<and> ProductsController_deleteProduct oid st = (Inl (HttpException ''Invalid ID format'' 400), st))
   \<and> (ObjectId_isValid oid \<longrightarrow>
      (fst (ProductsService_getProductById oid st) = Inr None \<longrightarrow>
         fst (ProductsController_getProductById oid st) = Inl (HttpException ''Product not found'' 404))
    \<and> (fst (ProductsService_updateProduct oid dto st) = Inr None \<longrightarrow>
         fst (ProductsController_updateProductById oid dto st) = Inl (HttpException ''Product not found'' 404))
    \<and> (fst (ProductsService_deleteProduct oid st) = Inr None \<longrightarrow>
         fst (ProductsController_deleteProduct oid st) = Inl (HttpException ''Product not found'' 404)))
   \<and> router other \<lparr>req_method = ''GET'', originalUrl = ''/products/not-a-valid-id'', headers = hs, body = b\<rparr> w =
       (\<lparr>status = 400, json = JObj [(''statusCode'', JNum 400), (''message'', JStr ''Invalid ID format'')]\<rparr>, w)"
proof -
  have a: "\<not> ObjectId_isValid oid \<Longrightarrow>
      ProductsController_getProductById oid st = (Inl (HttpException ''Invalid ID format'' 400), st)
    \<and> ProductsController_updateProductById oid dto st = (Inl (HttpException ''Invalid ID format'' 400), st)
    \<and> ProductsController_deleteProduct oid st = (Inl (HttpException ''Invalid ID format'' 400), st)"
    by (simp add: ProductsController_getProductById_def ProductsController_updateProductById_def
        ProductsController_deleteProduct_def)
  have b1: "ObjectId_isValid oid \<Longrightarrow> fst (ProductsService_getProductById oid st) = Inr None \<Longrightarrow>
         fst (ProductsController_getProductById oid st) = Inl (HttpException ''Product not found'' 404)"
    by (cases "ProductsService_getProductById oid st")
       (simp add: ProductsController_getProductById_def)
  have b2: "ObjectId_isValid oid \<Longrightarrow> fst (ProductsService_updateProduct oid dto st) = Inr None \<Longrightarrow>
         fst (ProductsController_updateProductById oid dto st) = Inl (HttpException ''Product not found'' 404)"
    by (cases "ProductsService_updateProduct oid dto st")
       (simp add: ProductsController_updateProductById_def)
  have b3: "ObjectId_isValid oid \<Longrightarrow> fst (ProductsService_deleteProduct oid st) = Inr None \<Longrightarrow>
         fst (ProductsController_deleteProduct oid st) = Inl (HttpException ''Product not found'' 404)"
    by (cases "ProductsService_deleteProduct oid st")
       (simp add: ProductsController_deleteProduct_def)
  have c: "router other \<lparr>req_method = ''GET'', originalUrl = ''/products/not-a-valid-id'', headers = hs, body = b\<rparr> w =
       (\<lparr>status = 400, json = JObj [(''statusCode'', JNum 400), (''message'', JStr ''Invalid ID format'')]\<rparr>, w)"
    by (simp add: router_def path_segments_def on_store_def ProductsController_getProductById_def
        not_a_valid_id to_response_def)
  from a b1 b2 b3 c show ?thesis by blast
qed

theorem identifier_checked_first_witness:
  "\<not> ObjectId_isValid ''not-a-valid-id''
   \<and> ProductsController_deleteProduct ''not-a-valid-id'' empty_store =
       (Inl (HttpException ''Invalid ID format'' 400), empty_store)
   \<and> ObjectId_isValid ''00000000000000000000002a''
   \<and> fst (ProductsService_getProductById ''00000000000000000000002a'' empty_store) = Inr None
   \<and> fst (ProductsController_getProductById ''00000000000000000000002a'' empty_store) =
       Inl (HttpException ''Product not found'' 404)"
proof -
  have v: "ObjectId_isValid ''00000000000000000000002a''"
    by (simp add: ObjectId_isValid_def valid_example)
  have n: "fst (ProductsService_getProductById ''00000000000000000000002a'' empty_store) = Inr None"
    by (simp add: ProductsService_getProductById_def Model_findById_def valid_example
        empty_store_def)
  show ?thesis
    using identifier_checked_first [where oid = "''not-a-valid-id''" and st = empty_store]
      identifier_checked_first [where oid = "''00000000000000000000002a''" and st = empty_store]
      not_a_valid_id v n
    by simp
qed

lemma attributes_of_Laptop: "attributes_of Laptop = Laptop"
  by (simp add: attributes_of_def Laptop_def Product_attributes_def AList.restrict_eq)

lemma Laptop_valid: "ValidationPipe CreateProductDto Laptop = Inr Laptop"
  by (simp add: ValidationPipe_def validateSync_def CreateProductDto_def Laptop_def
      property_ok_def get_prop_def)

lemma map_of_fresh_append:
  "list_all (\<lambda>d. fst d < (n::nat)) ds \<Longrightarrow> map_of (ds @ [(n, v)]) n = Some v"
proof -
  assume a: "list_all (\<lambda>d. fst d < (n::nat)) ds"
  then have "n \<notin> fst ` set ds" by (force simp add: list_all_iff)
  then have "map_of ds n = None" by (simp add: map_of_eq_None_iff)
  then show ?thesis by (simp add: map_add_def)
qed

text \<open>
  C7. In a well-formed store, creating the product of the README answers with the
  created record, which is the payload under a new identifier, and fetching by that
  identifier, in the store the creation leaves, answers with the same record.
\<close>

theorem create_then_get:
  "wf_store st \<Longrightarrow>
   fst (POST_products Laptop st) =
     Inr (JObj [(''message'', JStr ''Product created successfully''),
                (''product'', JObj ((''_id'', JStr (toHexString (next_id st))) # Laptop))])
   \<and> fst (ProductsController_getProductById (toHexString (next_id st)) (snd (POST_products Laptop st))) =
     Inr (JObj [(''message'', JStr ''Product retrieved successfully''),
                (''product'', JObj ((''_id'', JStr (toHexString (next_id st))) # Laptop))])"
proof -
  assume wf: "wf_store st"
  then have lt: "next_id st < 16 ^ 24" and fresh: "list_all (\<lambda>d. fst d < next_id st) (docs st)"
    by (simp_all add: wf_store_def)
  have cast: "ObjectId_cast (toHexString (next_id st)) = Some (next_id st)"
    using lt by (rule ObjectId_cast_toHexString)
  have post: "POST_products Laptop st =
      (Inr (JObj [(''message'', JStr ''Product created successfully''),
                  (''product'', JObj ((''_id'', JStr (toHexString (next_id st))) # Laptop))]),
       st\<lparr>docs := docs st @ [(next_id st, Laptop)], next_id := Suc (next_id st),
          journal := journal st @ [Save Laptop]\<rparr>)"
    by (simp add: POST_products_def Laptop_valid ProductsController_createProduct_def
        ProductsService_createProduct_def Model_save_def attributes_of_Laptop document_json_def
        Let_def)
  have get: "fst (ProductsController_getProductById (toHexString (next_id st))
       (st\<lparr>docs := docs st @ [(next_id st, Laptop)], next_id := Suc (next_id st),
          journal := journal st @ [Save Laptop]\<rparr>)) =
     Inr (JObj [(''message'', JStr ''Product retrieved successfully''),
                (''product'', JObj ((''_id'', JStr (toHexString (next_id st))) # Laptop))])"
    using map_of_fresh_append [OF fresh, of Laptop]
    by (simp add: ProductsController_getProductById_def ObjectId_isValid_def cast
        ProductsService_getProductById_def Model_findById_def document_json_def
        del: map_of_append)
  show ?thesis by (simp add: post get)
qed

theorem create_then_get_witness:
  "wf_store empty_store
   \<and> fst (POST_products Laptop empty_store) =
     Inr (JObj [(''message'', JStr ''Product created successfully''),
                (''product'', JObj ((''_id'', JStr ''000000000000000000000000'') # Laptop))])
   \<and> fst (ProductsController_getProductById ''000000000000000000000000''
            (snd (POST_products Laptop empty_store))) =
     Inr (JObj [(''message'', JStr ''Product retrieved successfully''),
                (''product'', JObj ((''_id'', JStr ''000000000000000000000000'') # Laptop))])"
proof -
  have wf: "wf_store empty_store" by (simp add: wf_store_def empty_store_def)
  have n: "next_id empty_store = 0" by (simp add: empty_store_def)
  show ?thesis using create_then_get [OF wf] wf by (simp add: n toHexString_0)
qed

lemma PATCH_price_valid:
  "0 \<le> r \<Longrightarrow> ValidationPipe UpdateProductDto [(''price'', JNum r)] = Inr [(''price'', JNum r)]"
  by (simp add: ValidationPipe_def validateSync_def UpdateProductDto_def property_ok_def
      get_prop_def)

lemma attributes_of_price: "attributes_of [(''price'', v)] = [(''price'', v)]"
  by (simp add: attributes_of_def Product_attributes_def AList.restrict_eq)

lemma PATCH_price_result:
  "0 \<le> r \<Longrightarrow> ObjectId_cast oid = Some k \<Longrightarrow> map_of (docs st) k = Some old \<Longrightarrow>
   PATCH_products oid [(''price'', JNum r)] st =
     (Inr (JObj [(''message'', JStr ''Product successfully updated''),
                 (''product'', document_json (k, AList.update ''price'' (JNum r) old))]),
      st\<lparr>journal := journal st @ [FindByIdAndUpdate oid [(''price'', JNum r)]],
         docs := AList.update k (AList.update ''price'' (JNum r) old) (docs st)\<rparr>)"
  by (simp add: PATCH_products_def PATCH_price_valid ProductsController_updateProductById_def
      ObjectId_isValid_def ProductsService_updateProduct_def Model_findByIdAndUpdate_def
      attributes_of_price AList.merge_def Let_def)

text \<open>
  C8. For a product that exists under the identifier, an update whose body is only
  \<open>{"price":899.99}\<close> answers with the record in which the price is 899.99, and that
  record is the stored one afterwards. Its name, description and category, and every
  other attribute, are those of the record before; the other records are as before.
\<close>

theorem update_price_only:
  "ObjectId_cast oid = Some k \<Longrightarrow> map_of (docs st) k = Some old \<Longrightarrow>
   (let new = AList.update ''price'' (JNum 899.99) old;
        res = PATCH_products oid [(''price'', JNum 899.99)] st
    in fst res = Inr (JObj [(''message'', JStr ''Product successfully updated''),
                           (''product'', document_json (k, new))])
       \<and> map_of (docs (snd res)) k = Some new
       \<and> get_prop new ''price'' = JNum 899.99
       \<and> get_prop new ''name'' = get_prop old ''name''
       \<and> get_prop new ''description'' = get_prop old ''description''
       \<and> get_prop new ''category'' = get_prop old ''category''
       \<and> (\<forall>a. a \<noteq> ''price'' \<longrightarrow> get_prop new a = get_prop old a)
       \<and> (\<forall>j. j \<noteq> k \<longrightarrow> map_of (docs (snd res)) j = map_of (docs st) j))"
proof -
  assume c: "ObjectId_cast oid = Some k" and e: "map_of (docs st) k = Some old"
  have p: "(0::rat) \<le> 899.99" by simp
  have frame: "\<And>a. a \<noteq> ''price'' \<Longrightarrow>
      get_prop (AList.update ''price'' (JNum 899.99) old) a = get_prop old a"
    by (simp add: get_prop_def update_conv')
  have price: "get_prop (AList.update ''price'' (JNum 899.99) old) ''price'' = JNum 899.99"
    by (simp add: get_prop_def update_conv')
  show ?thesis
    unfolding Let_def PATCH_price_result [OF p c e]
    using frame price by (simp add: update_conv')
qed

theorem update_price_only_witness:
  "ObjectId_cast ''000000000000000000000000'' = Some 0
   \<and> map_of (docs \<lparr>docs = [(0, Laptop)], next_id = 1, journal = []\<rparr>) 0 = Some Laptop
   \<and> fst (PATCH_products ''000000000000000000000000'' [(''price'', JNum 899.99)]
        \<lparr>docs = [(0, Laptop)], next_id = 1, journal = []\<rparr>) =
      Inr (JObj [(''message'', JStr ''Product successfully updated''),
                 (''product'', JObj [(''_id'', JStr ''000000000000000000000000''),
                                     (''name'', JStr ''Laptop''),
                                     (''price'', JNum 899.99),
                                     (''description'', JStr ''High-performance laptop''),
                                     (''category'', JStr ''Electronics'')])])"
proof -
  have c: "ObjectId_cast ''000000000000000000000000'' = Some 0"
    by (simp add: ObjectId_cast_def hex_value_def)
  have e: "map_of (docs \<lparr>docs = [(0, Laptop)], next_id = 1, journal = []\<rparr>) 0 = Some Laptop"
    by simp
  show ?thesis
    using update_price_only [OF c e] c e
    by (simp add: Let_def document_json_def toHexString_0 Laptop_def)
qed

lemma delete_result:
  "ObjectId_cast oid = Some k \<Longrightarrow>
   ProductsController_deleteProduct oid st =
     (case map_of (docs st) k of
        None \<Rightarrow> (Inl (HttpException ''Product not found'' 404),
                 st\<lparr>journal := journal st @ [FindByIdAndDelete oid]\<rparr>)
      | Some old \<Rightarrow> (Inr (JObj [(''message'', JStr ''Product successfully deleted'')]),
                    st\<lparr>journal := journal st @ [FindByIdAndDelete oid],
                       docs := AList.delete k (docs st)\<rparr>))"
  by (simp add: ProductsController_deleteProduct_def ObjectId_isValid_def
      ProductsService_deleteProduct_def Model_findByIdAndDelete_def Let_def
      split: option.splits)

lemma absent_after_delete:
  "ObjectId_cast oid = Some k \<Longrightarrow>
   map_of (docs (snd (ProductsController_deleteProduct oid st))) k = None"
  by (simp add: delete_result delete_conv' split: option.splits)

lemma delete_absent:
  "ObjectId_cast oid = Some k \<Longrightarrow> map_of (docs st) k = None \<Longrightarrow>
   fst (ProductsController_deleteProduct oid st) = Inl (HttpException ''Product not found'' 404)
   \<and> docs (snd (ProductsController_deleteProduct oid st)) = docs st"
  by (simp add: delete_result)

text \<open>
  C9. For a well-formed identifier: when the store has no record under it, delete-by-id
  answers 404 and leaves the records as they are; after any delete-by-id of it, a second
  one answers 404 and a third one answers 404 again; and no delete-by-id ends in an
  error that the handler does not turn into its own answer.
\<close>

theorem delete_twice_not_found:
  "ObjectId_isValid oid \<Longrightarrow>
   (fst (ProductsService_getProductById oid st) = Inr None \<longrightarrow>
      fst (ProductsController_deleteProduct oid st) = Inl (HttpException ''Product not found'' 404)
      \<and> docs (snd (ProductsController_deleteProduct oid st)) = docs st)
   \<and> fst (ProductsController_deleteProduct oid (snd (ProductsController_deleteProduct oid st))) =
       Inl (HttpException ''Product not found'' 404)
   \<and> fst (ProductsController_deleteProduct oid
        (snd (ProductsController_deleteProduct oid (snd (ProductsController_deleteProduct oid st))))) =
       Inl (HttpException ''Product not found'' 404)
   \<and> status (to_response 200 (Inl (HttpException ''Product not found'' 404))) = 404
   \<and> (\<forall>e. fst (ProductsController_deleteProduct oid st) \<noteq> Inl (Unhandled e))"
proof -
  assume "ObjectId_isValid oid"
  then obtain k where c: "ObjectId_cast oid = Some k"
    by (auto simp add: ObjectId_isValid_def)
  let ?s1 = "snd (ProductsController_deleteProduct oid st)"
  let ?s2 = "snd (ProductsController_deleteProduct oid ?s1)"
  have a: "fst (ProductsService_getProductById oid st) = Inr None \<Longrightarrow>
      fst (ProductsController_deleteProduct oid st) = Inl (HttpException ''Product not found'' 404)
      \<and> docs (snd (ProductsController_deleteProduct oid st)) = docs st"
  proof -
    assume "fst (ProductsService_getProductById oid st) = Inr None"
    then have "map_of (docs st) k = None"
      by (simp add: ProductsService_getProductById_def Model_findById_def c)
    then show ?thesis by (rule delete_absent [OF c])
  qed
  have n1: "map_of (docs ?s1) k = None" by (rule absent_after_delete [OF c])
  have b: "fst (ProductsController_deleteProduct oid ?s1) = Inl (HttpException ''Product not found'' 404)"
    using delete_absent [OF c n1] by simp
  have n2: "map_of (docs ?s2) k = None" by (rule absent_after_delete [OF c])
  have d: "fst (ProductsController_deleteProduct oid ?s2) = Inl (HttpException ''Product not found'' 404)"
    using delete_absent [OF c n2] by simp
  have s: "status (to_response 200 (Inl (HttpException ''Product not found'' 404))) = 404"
    by (simp add: to_response_def)
  have u: "\<forall>e. fst (ProductsController_deleteProduct oid st) \<noteq> Inl (Unhandled e)"
    by (simp add: delete_result [OF c] split: option.splits)
  from a b d s u show ?thesis by blast
qed

theorem delete_twice_not_found_witness:
  "ObjectId_isValid ''000000000000000000000000''
   \<and> fst (ProductsController_deleteProduct ''000000000000000000000000''
        \<lparr>docs = [(0, Laptop)], next_id = 1, journal = []\<rparr>) =
       Inr (JObj [(''message'', JStr ''Product successfully deleted'')])
   \<and> fst (ProductsController_deleteProduct ''000000000000000000000000''
        (snd (ProductsController_deleteProduct ''000000000000000000000000''
           \<lparr>docs = [(0, Laptop)], next_id = 1, journal = []\<rparr>))) =
       Inl (HttpException ''Product not found'' 404)
   \<and> fst (ProductsController_deleteProduct ''000000000000000000000000''
        (snd (ProductsController_deleteProduct ''000000000000000000000000''
           (snd (ProductsController_deleteProduct ''000000000000000000000000''
              \<lparr>docs = [(0, Laptop)], next_id = 1, journal = []\<rparr>))))) =
       Inl (HttpException ''Product not found'' 404)"
proof -
  have c: "ObjectId_cast ''000000000000000000000000'' = Some 0"
    by (simp add: ObjectId_cast_def hex_value_def)
  have v: "ObjectId_isValid ''000000000000000000000000''"
    by (simp add: ObjectId_isValid_def c)
  have f: "fst (ProductsController_deleteProduct ''000000000000000000000000''
        \<lparr>docs = [(0, Laptop)], next_id = 1, journal = []\<rparr>) =
       Inr (JObj [(''message'', JStr ''Product successfully deleted'')])"
    by (simp add: delete_result [OF c])
  show ?thesis
    using delete_twice_not_found [OF v, of "\<lparr>docs = [(0, Laptop)], next_id = 1, journal = []\<rparr>"] v f
    by simp
qed

section \<open>Well-formedness is kept by the store\<close>

lemma wf_store_save:
  "wf_store st \<Longrightarrow> Suc (next_id st) < 16 ^ 24 \<Longrightarrow> wf_store (snd (Model_save obj st))"
  by (auto simp add: wf_store_def Model_save_def Let_def list_all_iff)

lemma wf_store_find: "wf_store st \<Longrightarrow> wf_store (snd (Model_find st))"
  by (simp add: wf_store_def Model_find_def)

lemma wf_store_findById: "wf_store st \<Longrightarrow> wf_store (snd (Model_findById oid st))"
  by (simp add: wf_store_def Model_findById_def)

lemma wf_store_findByIdAndUpdate:
  "wf_store st \<Longrightarrow> wf_store (snd (Model_findByIdAndUpdate oid upd st))"
proof -
  assume wf: "wf_store st"
  have "\<And>k old new. map_of (docs st) k = Some old \<Longrightarrow>
      list_all (\<lambda>d. fst d < next_id st) (AList.update k new (docs st))"
  proof -
    fix k old new
    assume "map_of (docs st) k = Some old"
    then have "(k, old) \<in> set (docs st)" by (rule map_of_SomeD)
    then have "k < next_id st" using wf by (force simp add: wf_store_def list_all_iff)
    moreover have "fst ` set (AList.update k new (docs st)) = {k} \<union> fst ` set (docs st)"
      by (rule dom_update)
    ultimately show "list_all (\<lambda>d. fst d < next_id st) (AList.update k new (docs st))"
      using wf by (force simp add: wf_store_def list_all_iff)
  qed
  then show ?thesis
    using wf by (auto simp add: wf_store_def Model_findByIdAndUpdate_def Let_def
        split: option.splits)
qed

lemma wf_store_findByIdAndDelete:
  "wf_store st \<Longrightarrow> wf_store (snd (Model_findByIdAndDelete oid st))"
  by (auto simp add: wf_store_def Model_findByIdAndDelete_def Let_def list_all_iff
      AList.delete_eq split: option.splits)

end
